theory Spec2Isabelle
  imports Complex_Main
begin

section \<open>The notebook PythonPerformance.ipynb: the Monte Carlo estimator and the Lorenz field\<close>

text \<open>
  The notebook defines four variants of \<open>estimate_pi\<close> (a Python loop, a numpy
  vectorised version, the Python loop under \<open>numba.njit\<close>, a Julia loop) and the
  Lorenz vector field (Python \<open>lorenz\<close>, Julia \<open>f\<close>).

  Conventions of the embedding.
  \<^item> A float is the real number it denotes. The operations whose rounding decides
    a branch, namely the two squares, their sum and the square root that give \<open>r\<close>
    in the estimators, are fields of a record \<open>platform\<close>: the theorems hold
    whatever these operations return. \<open>binary64\<close> is the concrete platform of
    IEEE 754 double precision, round to nearest, ties to even.
  \<^item> \<open>(a - 0.5) * diameter\<close> is written with the exact operations: for every number
    \<open>k / 2\<^sup>5\<^sup>3\<close> the generator produces, and \<open>diameter = 2\<close>, both operations are
    exact in double precision. The final \<open>4.*n_circle/nMC\<close> and the arithmetic of
    the Lorenz field are exact too: no branch depends on their rounding.
    Overflow, infinities and signed zeros are outside the model; Julia's NaN,
    which the Julia estimator produces, is a value of its result type.
  \<^item> The random generator is deterministic once seeded. Its state is the
    sequence of numbers it is going to produce and the number of them already
    consumed. That the numbers lie in \<open>[0, 1)\<close> is a hypothesis of the theorems
    that need it, not part of the type.
  \<^item> Standard output is the list of the integers printed so far.
  \<^item> Exceptions are values of type \<open>error\<close>, on the left of a sum.
\<close>

subsection \<open>State and library operations\<close>

datatype error = ZeroDivisionError | ValueError | BoundsError | OverflowError

record world =
  draws :: "nat \<Rightarrow> real"
  pos :: nat
  stdout :: "int list"

text \<open>\<open>np.random.random()\<close> (and Julia's \<open>rand()\<close>): the next number of the generator.\<close>

definition np_random :: "world \<Rightarrow> real \<times> world" where
  "np_random s = (draws s (pos s), s\<lparr>pos := Suc (pos s)\<rparr>)"

text \<open>
  \<open>np.random.random((n, 2))\<close>: an array of \<open>n\<close> rows and two columns, filled in
  row-major order from the same generator; a negative dimension raises \<open>ValueError\<close>
  before anything is drawn.
\<close>

primrec random_rows :: "nat \<Rightarrow> world \<Rightarrow> real list list \<times> world" where
  "random_rows 0 s = ([], s)"
| "random_rows (Suc n) s =
     (let (a, s1) = np_random s;
          (b, s2) = np_random s1;
          (rows, s3) = random_rows n s2
      in ([a, b] # rows, s3))"

definition np_random_shape :: "int \<Rightarrow> world \<Rightarrow> (error + real list list) \<times> world" where
  "np_random_shape n s =
     (if n < 0 then (Inl ValueError, s)
      else (let (rows, s') = random_rows (nat n) s in (Inr rows, s')))"

text \<open>\<open>r[circle_mask]\<close>: the entries of an array selected by a boolean mask.\<close>

definition mask_select :: "'a list \<Rightarrow> bool list \<Rightarrow> 'a list" where
  "mask_select xs bs = map fst (filter snd (zip xs bs))"

definition print :: "int \<Rightarrow> world \<Rightarrow> world" where
  "print n s = s\<lparr>stdout := stdout s @ [n]\<rparr>"

text \<open>\<open>for i in range(n)\<close> with a body that does not read \<open>i\<close>; \<open>range\<close> of a
  negative number is empty, so the callers pass \<open>nat nMC\<close>.\<close>

primrec for_range :: "nat \<Rightarrow> ('a \<Rightarrow> 'a) \<Rightarrow> 'a \<Rightarrow> 'a" where
  "for_range 0 body acc = acc"
| "for_range (Suc k) body acc = for_range k body (body acc)"

subsection \<open>Floating-point operations\<close>

text \<open>
  The operations on floats that the membership test goes through. The four
  variants square a coordinate in four ways: CPython's \<open>x**2\<close> calls C's
  \<open>pow(x, 2.0)\<close>, numpy's \<open>xy**2\<close> multiplies, numba compiles \<open>x**2\<close> itself and
  Julia's \<open>x^2\<close> multiplies. The sum and the square root are the same
  operations everywhere.
\<close>

record platform =
  py_pow2 :: "real \<Rightarrow> real"
  np_square :: "real \<Rightarrow> real"
  nb_pow2 :: "real \<Rightarrow> real"
  jl_pow2 :: "real \<Rightarrow> real"
  fl_add :: "real \<Rightarrow> real \<Rightarrow> real"
  fl_sqrt :: "real \<Rightarrow> real"

text \<open>
  Double precision. \<open>round_even\<close> rounds to the nearest integer, a tie to the even
  one; \<open>binexp x\<close> is the exponent \<open>e\<close> with \<open>2\<^sup>e \<le> |x| < 2\<^sup>e\<^sup>+\<^sup>1\<close>; \<open>fl x\<close> is the nearest
  number with a 53-bit significand. Subnormal numbers and overflow are left out:
  every non-zero number the estimators compute lies between \<open>2\<^sup>-\<^sup>1\<^sup>0\<^sup>4\<close> and \<open>2\<close>.
\<close>

definition round_even :: "real \<Rightarrow> int" where
  "round_even q =
     (let f = \<lfloor>q\<rfloor>; d = q - of_int f
      in if d < 1/2 then f else if 1/2 < d then f + 1 else if even f then f else f + 1)"

definition binexp :: "real \<Rightarrow> int" where
  "binexp x = \<lfloor>log 2 \<bar>x\<bar>\<rfloor>"

definition fl :: "real \<Rightarrow> real" where
  "fl x =
     (if x = 0 then 0
      else of_int (round_even (x / 2 powr of_int (binexp x - 52))) * 2 powr of_int (binexp x - 52))"

text \<open>
  C's \<open>pow\<close> need not be correctly rounded. Under glibc 2.39, \<open>pow(x0, 2.0)\<close> for the
  \<open>x0\<close> below is the double just under the correctly rounded square of \<open>x0\<close>
  (\<open>0.9294170300675892\<close> against \<open>0.9294170300675894\<close>). \<open>glibc_pow2\<close> records that
  value. It takes the correctly rounded square elsewhere, which is what \<open>pow\<close>
  returns at the other arguments this development evaluates it at
  (\<open>0\<close>, \<open>-1\<close>, \<open>2\<^sup>-\<^sup>5\<^sup>2\<close> and \<open>y0\<close>); no theorem depends on its value at any further
  argument. In \<open>binary64\<close> the squares of numpy, numba and Julia are correctly
  rounded products; those of numba and Julia are evaluated at \<open>-1\<close> and \<open>2\<^sup>-\<^sup>5\<^sup>2\<close>
  only, where the square is exact.
\<close>

definition x0 :: real where
  "x0 = - 2170876372369019 / 2 ^ 51"

definition y0 :: real where
  "y0 = 149561479165519 / 2 ^ 49"

definition glibc_pow2 :: "real \<Rightarrow> real" where
  "glibc_pow2 x = (if x = x0 then 1046430547571047 / 2 ^ 50 else fl (x * x))"

definition binary64 :: platform where
  "binary64 =
     \<lparr>py_pow2 = glibc_pow2,
      np_square = (\<lambda>x. fl (x * x)),
      nb_pow2 = (\<lambda>x. fl (x * x)),
      jl_pow2 = (\<lambda>x. fl (x * x)),
      fl_add = (\<lambda>a b. fl (a + b)),
      fl_sqrt = (\<lambda>a. fl (sqrt a))\<rparr>"

subsection \<open>The estimators\<close>

text \<open>
  The loop body of the naive estimator. The numba and Julia variants repeat it
  word for word; \<open>pow2\<close> is what squaring means in the variant.
  \<^verbatim>\<open>
        x = (np.random.random()-0.5)*diameter
        y = (np.random.random()-0.5)*diameter
        r = np.sqrt(x**2 + y**2)
        if r <= radius:
           n_circle += 1
  \<close>
  \<open>sample_xy\<close> is its first two lines.
\<close>

definition sample_xy :: "real \<Rightarrow> world \<Rightarrow> (real \<times> real) \<times> world" where
  "sample_xy diameter s =
     (let (a, s1) = np_random s;
          x = (a - 0.5) * diameter;
          (b, s2) = np_random s1;
          y = (b - 0.5) * diameter
      in ((x, y), s2))"

definition loop_body ::
  "(real \<Rightarrow> real) \<Rightarrow> platform \<Rightarrow> real \<Rightarrow> real \<Rightarrow> int \<times> world \<Rightarrow> int \<times> world" where
  "loop_body pow2 P radius diameter acc =
     (let (n_circle, s) = acc;
          ((x, y), s2) = sample_xy diameter s;
          r = fl_sqrt P (fl_add P (pow2 x) (pow2 y))
      in (if r \<le> radius then n_circle + 1 else n_circle, s2))"

text \<open>The naive Python loop. The final \<open>4.*n_circle/nMC\<close> divides a float by the
  integer \<open>nMC\<close>, which raises \<open>ZeroDivisionError\<close> when \<open>nMC\<close> is 0.\<close>

definition estimate_pi_naive :: "platform \<Rightarrow> int \<Rightarrow> world \<Rightarrow> (error + real) \<times> world" where
  "estimate_pi_naive P nMC s =
     (let radius = 1;
          diameter = 2 * radius;
          (n_circle, s') =
             for_range (nat nMC) (loop_body (py_pow2 P) P radius diameter) (0, s)
      in (if nMC = 0 then Inl ZeroDivisionError
          else Inr (4 * of_int n_circle / of_int nMC), s'))"

text \<open>The same function under \<open>@numba.njit\<close>. The compiled function takes a 64-bit
  integer: a Python integer outside that range is refused with \<open>OverflowError\<close>
  before the body runs. numba's default error model is Python's: the division
  by zero raises.\<close>

definition estimate_pi_numba :: "platform \<Rightarrow> int \<Rightarrow> world \<Rightarrow> (error + real) \<times> world" where
  "estimate_pi_numba P nMC s =
     (if nMC < - (2 ^ 63) \<or> 2 ^ 63 \<le> nMC then (Inl OverflowError, s)
      else
       (let radius = 1;
            diameter = 2 * radius;
            (n_circle, s') =
               for_range (nat nMC) (loop_body (nb_pow2 P) P radius diameter) (0, s)
        in (if nMC = 0 then Inl ZeroDivisionError
            else Inr (4 * of_int n_circle / of_int nMC), s')))"

text \<open>
  The vectorised Python version.
  \<^verbatim>\<open>
    xy = (np.random.random((nMC,2))-0.5) * diameter
    r = np.sqrt((xy**2).sum(axis=1))
    circle_mask = r <= radius
    n_circle = r[circle_mask].shape[0]
    print(n_circle)
    return 4.*n_circle/nMC
  \<close>
  \<open>sample_array\<close> is its first line; \<open>row_sum\<close> is \<open>.sum(axis=1)\<close> on one row, which
  adds the entries from left to right.
\<close>

definition sample_array :: "real \<Rightarrow> int \<Rightarrow> world \<Rightarrow> (error + real list list) \<times> world" where
  "sample_array diameter nMC s =
     (case np_random_shape nMC s of
        (Inl e, s1) \<Rightarrow> (Inl e, s1)
      | (Inr raw, s1) \<Rightarrow> (Inr (map (map (\<lambda>v. (v - 0.5) * diameter)) raw), s1))"

definition row_sum :: "platform \<Rightarrow> real list \<Rightarrow> real" where
  "row_sum P row = (case row of [] \<Rightarrow> 0 | v # vs \<Rightarrow> foldl (fl_add P) v vs)"

definition estimate_pi_vectorized :: "platform \<Rightarrow> int \<Rightarrow> world \<Rightarrow> (error + real) \<times> world" where
  "estimate_pi_vectorized P nMC s =
     (let radius = 1;
          diameter = 2 * radius
      in case sample_array diameter nMC s of
           (Inl e, s1) \<Rightarrow> (Inl e, s1)
         | (Inr xy, s1) \<Rightarrow>
             (let r = map (fl_sqrt P) (map (row_sum P) (map (map (np_square P)) xy));
                  circle_mask = map (\<lambda>v. v \<le> radius) r;
                  n_circle = int (length (mask_select r circle_mask));
                  s2 = print n_circle s1
              in (if nMC = 0 then Inl ZeroDivisionError
                  else Inr (4 * of_int n_circle / of_int nMC), s2)))"

text \<open>The Julia loop returns \<open>(n_circle/nMC) * 4.\<close>; in Julia \<open>0/0\<close> is NaN and
  nothing is raised.\<close>

datatype float64 = NaN | Finite real

definition estimate_pi_julia :: "platform \<Rightarrow> int \<Rightarrow> world \<Rightarrow> float64 \<times> world" where
  "estimate_pi_julia P nMC s =
     (let radius = 1;
          diameter = 2 * radius;
          (n_circle, s') =
             for_range (nat nMC) (loop_body (jl_pow2 P) P radius diameter) (0, s)
      in (if nMC = 0 then NaN
          else Finite ((of_int n_circle / of_int nMC) * 4), s'))"

subsection \<open>The Lorenz vector field\<close>

text \<open>
  \<^verbatim>\<open>
  def lorenz(u, t, sigma, rho, beta):
      x, y, z = u
      return [sigma * (y - x), x * (rho - z) - y, x * y - beta * z]
  \<close>
  Unpacking a sequence that does not have exactly three elements raises \<open>ValueError\<close>.
\<close>

fun lorenz :: "real list \<Rightarrow> real \<Rightarrow> real \<Rightarrow> real \<Rightarrow> real \<Rightarrow> error + real list" where
  "lorenz [x, y, z] t sigma rho beta =
     Inr [sigma * (y - x), x * (rho - z) - y, x * y - beta * z]"
| "lorenz u t sigma rho beta = Inl ValueError"

text \<open>
  The Julia field \<open>f(du,u,p,t)\<close> writes the derivative into \<open>du\<close>. Julia arrays are
  indexed from 1; an index beyond the length raises \<open>BoundsError\<close>. All of \<open>u\<close> and
  \<open>p\<close> is read before \<open>du\<close> is written. The model returns the contents of \<open>du\<close> after
  a normal return.
\<close>

definition jul_lorenz :: "real list \<Rightarrow> real list \<Rightarrow> real list \<Rightarrow> real \<Rightarrow> error + real list" where
  "jul_lorenz du u p t =
     (if length u < 3 \<or> length p < 3 \<or> length du < 3 then Inl BoundsError
      else (let x = u ! 0; y = u ! 1; z = u ! 2;
                sigma = p ! 0; rho = p ! 1; beta = p ! 2
            in Inr (du[0 := sigma * (y - x), 1 := x * (rho - z) - y, 2 := x * y - beta * z])))"

subsection \<open>Notions used to state the properties\<close>

text \<open>The image in the square of one draw, for \<open>radius = 1\<close> and \<open>diameter = 2\<close>.\<close>

definition scale_draw :: "real \<Rightarrow> real" where
  "scale_draw a = (a - 0.5) * 2"

text \<open>The \<open>i\<close>-th point sampled from state \<open>s\<close> on: its coordinates are the images of
  draws \<open>2i\<close> and \<open>2i+1\<close> after the current position.\<close>

definition point :: "world \<Rightarrow> nat \<Rightarrow> real \<times> real" where
  "point s i = (scale_draw (draws s (pos s + 2 * i)), scale_draw (draws s (pos s + 2 * i + 1)))"

text \<open>The distance of a point from the origin as the code computes it: the value
  of its variable \<open>r\<close>, for a given way of squaring.\<close>

definition computed_r :: "platform \<Rightarrow> (real \<Rightarrow> real) \<Rightarrow> real \<times> real \<Rightarrow> real" where
  "computed_r P pow2 p = fl_sqrt P (fl_add P (pow2 (fst p)) (pow2 (snd p)))"

text \<open>How many of the first \<open>n\<close> points have a computed distance of at most 1.\<close>

definition hits :: "platform \<Rightarrow> (real \<Rightarrow> real) \<Rightarrow> world \<Rightarrow> nat \<Rightarrow> nat" where
  "hits P pow2 s n = length (filter (\<lambda>i. computed_r P pow2 (point s i) \<le> 1) [0..<n])"

text \<open>The same count split in two: computed distance under 1, and equal to 1.\<close>

definition strictly_inside :: "platform \<Rightarrow> (real \<Rightarrow> real) \<Rightarrow> world \<Rightarrow> nat \<Rightarrow> nat" where
  "strictly_inside P pow2 s n =
     length (filter (\<lambda>i. computed_r P pow2 (point s i) < 1) [0..<n])"

definition on_boundary :: "platform \<Rightarrow> (real \<Rightarrow> real) \<Rightarrow> world \<Rightarrow> nat \<Rightarrow> nat" where
  "on_boundary P pow2 s n =
     length (filter (\<lambda>i. computed_r P pow2 (point s i) = 1) [0..<n])"

text \<open>The estimate as the specification words it: four times the number of
  points with \<open>sqrt(x\<^sup>2 + y\<^sup>2) \<le> 1\<close>, divided by the trial count; the square root,
  the sum and the squares are those of the code.\<close>

definition estimate_pi_spec :: "platform \<Rightarrow> (real \<Rightarrow> real) \<Rightarrow> int \<Rightarrow> world \<Rightarrow> real" where
  "estimate_pi_spec P pow2 nMC s = 4 * real (hits P pow2 s (nat nMC)) / of_int nMC"

text \<open>
  Three concrete generators.
  \<^item> \<open>demo_world\<close> produces \<open>0, 0, 1/2, 1/2, \<dots>\<close>: the corner \<open>(-1, -1)\<close> of the square,
    then its centre.
  \<^item> \<open>rim_world\<close> alternates \<open>0\<close> and \<open>1/2 + 2\<^sup>-\<^sup>5\<^sup>3\<close>: every point is \<open>(-1, 2\<^sup>-\<^sup>5\<^sup>2)\<close>,
    whose computed distance is exactly 1.
  \<^item> \<open>cx_world\<close> produces \<open>0.017968613556236024\<close>, then \<open>0.6328372782132439\<close>
    for ever: its first point is \<open>(x0, y0)\<close>.
\<close>

definition demo_world :: world where
  "demo_world = \<lparr>draws = (\<lambda>i. if i < 2 then 0 else 1/2), pos = 0, stdout = []\<rparr>"

definition rim_world :: world where
  "rim_world = \<lparr>draws = (\<lambda>i. if even i then 0 else 1/2 + 1 / 2 ^ 53), pos = 0, stdout = []\<rparr>"

definition cx_world :: world where
  "cx_world =
     \<lparr>draws = (\<lambda>i. if i = 0 then 161846882632458 / 2 ^ 53 else 5700091460694648 / 2 ^ 53),
      pos = 0, stdout = []\<rparr>"

text \<open>Componentwise sum, difference and scaling of returned vectors; an error
  of either argument is the result.\<close>

fun result_add :: "error + real list \<Rightarrow> error + real list \<Rightarrow> error + real list" where
  "result_add (Inr a) (Inr b) = Inr (map2 (+) a b)"
| "result_add (Inl e) r = Inl e"
| "result_add r (Inl e) = Inl e"

fun result_sub :: "error + real list \<Rightarrow> error + real list \<Rightarrow> error + real list" where
  "result_sub (Inr a) (Inr b) = Inr (map2 (-) a b)"
| "result_sub (Inl e) r = Inl e"
| "result_sub r (Inl e) = Inl e"

fun result_scale :: "real \<Rightarrow> error + real list \<Rightarrow> error + real list" where
  "result_scale c (Inr a) = Inr (map ((*) c) a)"
| "result_scale c (Inl e) = Inl e"

section \<open>Rounding to double precision\<close>

lemma binexp_eq:
  assumes "2 powr of_int e \<le> \<bar>x\<bar>" and "\<bar>x\<bar> < 2 powr of_int (e + 1)"
  shows "binexp x = e"
proof -
  have pos: "0 < \<bar>x\<bar>"
    using assms(1) powr_gt_zero [of 2 "of_int e"] by linarith
  have "2 powr of_int e \<le> \<bar>x\<bar> \<and> \<bar>x\<bar> < 2 powr (of_int e + 1)"
    using assms by simp
  then show ?thesis
    unfolding binexp_def using floor_log_eq_powr_iff [of "\<bar>x\<bar>" 2 e] pos by simp
qed

lemma fl_eval:
  assumes "2 powr of_int e \<le> \<bar>x\<bar>" and "\<bar>x\<bar> < 2 powr of_int (e + 1)"
  shows "fl x = of_int (round_even (x / 2 powr of_int (e - 52))) * 2 powr of_int (e - 52)"
proof -
  have "x \<noteq> 0"
    using assms(1) powr_gt_zero [of 2 "of_int e"] by auto
  then show ?thesis
    by (simp add: fl_def binexp_eq [OF assms])
qed

lemma two_powr_neg: "(2::real) powr (- real k) = 1 / 2 ^ k"
  by (simp add: powr_minus_divide powr_realpow)

text \<open>The three ranges of exponents that occur: \<open>[1, 2)\<close>, \<open>[2, 4)\<close> and \<open>[2\<^sup>-\<^sup>k\<^sup>-\<^sup>1, 2\<^sup>-\<^sup>k)\<close>.\<close>

lemma fl_unit:
  assumes "1 \<le> \<bar>x\<bar>" and "\<bar>x\<bar> < 2"
  shows "fl x = of_int (round_even (x * 2 ^ 52)) / 2 ^ 52"
proof -
  have p: "(2::real) powr (- 52) = 1 / 2 ^ 52"
    using two_powr_neg [of 52] by simp
  show ?thesis
    using fl_eval [of 0 x] assms by (simp add: p)
qed

lemma fl_two:
  assumes "2 \<le> \<bar>x\<bar>" and "\<bar>x\<bar> < 4"
  shows "fl x = of_int (round_even (x * 2 ^ 51)) / 2 ^ 51"
proof -
  have p: "(2::real) powr (- 51) = 1 / 2 ^ 51"
    using two_powr_neg [of 51] by simp
  show ?thesis
    using fl_eval [of 1 x] assms by (simp add: p)
qed

lemma fl_small:
  assumes "1 / 2 ^ (k + 1) \<le> \<bar>x\<bar>" and "\<bar>x\<bar> < 1 / 2 ^ k"
  shows "fl x = of_int (round_even (x * 2 ^ (k + 53))) / 2 ^ (k + 53)"
proof -
  have a: "(2::real) powr of_int (- int (k + 1)) = 1 / 2 ^ (k + 1)"
    using two_powr_neg [of "k + 1"] by simp
  have b: "(2::real) powr of_int (- int (k + 1) + 1) = 1 / 2 ^ k"
    using two_powr_neg [of k] by simp
  have c: "(2::real) powr of_int (- int (k + 1) - 52) = 1 / 2 ^ (k + 53)"
    using two_powr_neg [of "k + 53"] by (simp add: algebra_simps)
  show ?thesis
    using fl_eval [of "- int (k + 1)" x] assms unfolding a b c by simp
qed

lemma round_even_near:
  assumes "of_int n \<le> q" and "q < of_int n + 1/2"
  shows "round_even q = n"
proof -
  have "\<lfloor>q\<rfloor> = n" using assms by (intro floor_unique) auto
  then show ?thesis using assms by (simp add: round_even_def)
qed

lemma round_even_ge: "\<lfloor>q\<rfloor> \<le> round_even q"
  by (simp add: round_even_def Let_def)

text \<open>Around 1: everything up to the midpoint \<open>1 + 2\<^sup>-\<^sup>5\<^sup>3\<close> rounds to 1 (the tie goes
  to the even significand), everything above it rounds to more than 1.\<close>

lemma fl_one_below:
  assumes "1 \<le> x" and "x \<le> 1 + 1 / 2 ^ 53"
  shows "fl x = 1"
proof -
  have u: "fl x = of_int (round_even (x * 2 ^ 52)) / 2 ^ 52"
    using assms by (intro fl_unit) auto
  have "round_even (x * 2 ^ 52) = 2 ^ 52"
  proof (cases "x = 1 + 1 / 2 ^ 53")
    case True
    then have q: "x * 2 ^ 52 = of_int (2 ^ 52) + 1/2" by simp
    have "\<lfloor>x * 2 ^ 52\<rfloor> = 2 ^ 52"
      unfolding q by (intro floor_unique) auto
    then show ?thesis
      unfolding round_even_def Let_def q by simp
  next
    case False
    with assms have "x < 1 + 1 / 2 ^ 53" by simp
    then have "x * 2 ^ 52 < of_int (2 ^ 52) + 1/2" by (simp add: field_simps)
    moreover have "of_int (2 ^ 52) \<le> x * 2 ^ 52" using assms(1) by simp
    ultimately show ?thesis by (rule round_even_near [rotated])
  qed
  then show ?thesis using u by simp
qed

lemma fl_one_above:
  assumes "1 + 1 / 2 ^ 53 < x" and "x < 2"
  shows "1 < fl x"
proof -
  have u: "fl x = of_int (round_even (x * 2 ^ 52)) / 2 ^ 52"
    using assms by (intro fl_unit) auto
  have q: "of_int (2 ^ 52) + 1/2 < x * 2 ^ 52"
    using assms(1) by (simp add: field_simps)
  have "2 ^ 52 < round_even (x * 2 ^ 52)"
  proof -
    have f: "2 ^ 52 \<le> \<lfloor>x * 2 ^ 52\<rfloor>"
      using q by (simp add: le_floor_iff)
    show ?thesis
    proof (cases "\<lfloor>x * 2 ^ 52\<rfloor> = 2 ^ 52")
      case True
      then have "1/2 < x * 2 ^ 52 - of_int \<lfloor>x * 2 ^ 52\<rfloor>" using q by simp
      then show ?thesis unfolding round_even_def Let_def using True by simp
    next
      case False
      with f have "2 ^ 52 < \<lfloor>x * 2 ^ 52\<rfloor>" by linarith
      then show ?thesis using round_even_ge [of "x * 2 ^ 52"] by linarith
    qed
  qed
  then have "(2::real) ^ 52 < of_int (round_even (x * 2 ^ 52))"
    by (metis of_int_less_iff of_int_numeral of_int_power)
  then show ?thesis using u by (simp add: field_simps)
qed

lemma fl_0: "fl 0 = 0"
  by (simp add: fl_def)

lemma fl_1: "fl 1 = 1"
  by (rule fl_one_below) auto

lemma fl_2: "fl 2 = 2"
  using fl_two [of 2] by (simp add: round_even_def)

lemma fl_tiny: "fl (1 / 2 ^ 104) = 1 / 2 ^ 104"
  using fl_small [of 103 "1 / 2 ^ 104"] by (simp add: round_even_def)

lemma fl_one_tiny: "fl (1 + 1 / 2 ^ 104) = 1"
  by (rule fl_one_below) simp_all

lemma fl_sqrt_two: "1 < fl (sqrt 2)"
proof (rule fl_one_above)
  show "1 + 1 / 2 ^ 53 < sqrt 2"
    by (rule real_less_rsqrt) (simp add: power2_eq_square)
  show "sqrt 2 < 2"
    by (rule real_less_lsqrt) simp_all
qed

text \<open>The values at the point \<open>(x0, y0)\<close>.\<close>

lemma sq_x0: "fl (x0 * x0) = 8371444380568377 / 2 ^ 53"
  using fl_small [of 0 "x0 * x0"] by (simp add: x0_def round_even_def)

lemma sq_y0: "fl (y0 * y0) = 5086038993380947 / 2 ^ 56"
  using fl_small [of 3 "y0 * y0"] by (simp add: y0_def round_even_def)

lemma sum_mul: "fl (8371444380568377 / 2 ^ 53 + 5086038993380947 / 2 ^ 56) = 1 + 1 / 2 ^ 51"
  using fl_unit [of "8371444380568377 / 2 ^ 53 + 5086038993380947 / 2 ^ 56"]
  by (simp add: round_even_def)

lemma sum_pow: "fl (1046430547571047 / 2 ^ 50 + 5086038993380947 / 2 ^ 56) = 1 + 1 / 2 ^ 52"
  using fl_unit [of "1046430547571047 / 2 ^ 50 + 5086038993380947 / 2 ^ 56"]
  by (simp add: round_even_def)

lemma sqrt_pow: "fl (sqrt (1 + 1 / 2 ^ 52)) = 1"
proof (rule fl_one_below)
  show "1 \<le> sqrt (1 + 1 / 2 ^ 52)" by simp
  show "sqrt (1 + 1 / 2 ^ 52) \<le> 1 + 1 / 2 ^ 53"
    by (rule real_le_lsqrt) (simp_all add: power2_eq_square)
qed

lemma sqrt_mul: "1 < fl (sqrt (1 + 1 / 2 ^ 51))"
proof (rule fl_one_above)
  show "1 + 1 / 2 ^ 53 < sqrt (1 + 1 / 2 ^ 51)"
    by (rule real_less_rsqrt) (simp add: power2_eq_square)
  show "sqrt (1 + 1 / 2 ^ 51) < 2"
    by (rule real_less_lsqrt) simp_all
qed

lemma computed_r_binary64:
  "computed_r binary64 pw (x, y) = fl (sqrt (fl (pw x + pw y)))"
  by (simp add: computed_r_def binary64_def)

lemma glibc_pow2_other: "x \<noteq> x0 \<Longrightarrow> glibc_pow2 x = fl (x * x)"
  by (simp add: glibc_pow2_def)

lemma squares_binary64:
  "py_pow2 binary64 (- 1) = 1" "py_pow2 binary64 0 = 0"
  "py_pow2 binary64 (1 / 2 ^ 52) = 1 / 2 ^ 104"
  "np_square binary64 (- 1) = 1" "np_square binary64 0 = 0"
  "np_square binary64 (1 / 2 ^ 52) = 1 / 2 ^ 104"
  "nb_pow2 binary64 (- 1) = 1" "nb_pow2 binary64 (1 / 2 ^ 52) = 1 / 2 ^ 104"
  "jl_pow2 binary64 (- 1) = 1" "jl_pow2 binary64 (1 / 2 ^ 52) = 1 / 2 ^ 104"
  using fl_0 fl_1 fl_tiny
  by (simp_all add: binary64_def glibc_pow2_def x0_def)

lemma r_corner:
  assumes "pw (- 1) = 1"
  shows "\<not> computed_r binary64 pw (- 1, - 1) \<le> 1"
  using fl_sqrt_two by (simp add: computed_r_binary64 assms fl_2)

lemma r_centre:
  assumes "pw 0 = 0"
  shows "computed_r binary64 pw (0, 0) = 0"
  by (simp add: computed_r_binary64 assms fl_0)

lemma r_rim:
  assumes "pw (- 1) = 1" and "pw (1 / 2 ^ 52) = 1 / 2 ^ 104"
  shows "computed_r binary64 pw (- 1, 1 / 2 ^ 52) = 1"
proof -
  have "computed_r binary64 pw (- 1, 1 / 2 ^ 52) = fl (sqrt (fl (pw (- 1) + pw (1 / 2 ^ 52))))"
    by (rule computed_r_binary64)
  also have "\<dots> = fl (sqrt (fl (1 + 1 / 2 ^ 104)))"
    by (simp only: assms)
  also have "\<dots> = 1"
    by (simp only: fl_one_tiny real_sqrt_one fl_1)
  finally show ?thesis .
qed

lemma r_cx_py: "computed_r binary64 (py_pow2 binary64) (x0, y0) = 1"
proof -
  have "y0 \<noteq> x0" by (simp add: x0_def y0_def)
  then have "py_pow2 binary64 x0 + py_pow2 binary64 y0 =
      1046430547571047 / 2 ^ 50 + 5086038993380947 / 2 ^ 56"
    by (simp add: binary64_def glibc_pow2_def sq_y0)
  then show ?thesis
    by (simp only: computed_r_binary64 sum_pow sqrt_pow)
qed

lemma r_cx_np: "\<not> computed_r binary64 (np_square binary64) (x0, y0) \<le> 1"
proof -
  have "np_square binary64 x0 + np_square binary64 y0 =
      8371444380568377 / 2 ^ 53 + 5086038993380947 / 2 ^ 56"
    by (simp add: binary64_def sq_x0 sq_y0)
  then have "computed_r binary64 (np_square binary64) (x0, y0) = fl (sqrt (1 + 1 / 2 ^ 51))"
    by (simp only: computed_r_binary64 sum_mul)
  then show ?thesis using sqrt_mul by simp
qed

section \<open>What the loop and the array pipeline compute\<close>

lemma upt_shift: "[0..<Suc n] = 0 # map Suc [0..<n]"
  by (simp add: upt_conv_Cons map_Suc_upt del: upt_Suc)

lemma hits_Suc:
  "hits P pw s (Suc n) =
     (if computed_r P pw (point s 0) \<le> 1 then 1 else 0) + hits P pw (s\<lparr>pos := pos s + 2\<rparr>) n"
  unfolding hits_def upt_shift
  by (simp add: filter_map o_def point_def)

text \<open>The first two lines of the body consume two draws and give the next point;
  the body tests the computed distance of that point.\<close>

lemma sample_xy_eq: "sample_xy 2 s = (point s 0, s\<lparr>pos := pos s + 2\<rparr>)"
  by (simp add: sample_xy_def np_random_def point_def scale_draw_def)

lemma loop_body_eq:
  "loop_body pw P 1 2 (c, s) =
     (if computed_r P pw (point s 0) \<le> 1 then c + 1 else c, s\<lparr>pos := pos s + 2\<rparr>)"
  by (simp add: loop_body_def sample_xy_eq computed_r_def split: prod.split)

lemma for_range_loop:
  "for_range n (loop_body pw P 1 2) (c, s) =
     (c + int (hits P pw s n), s\<lparr>pos := pos s + 2 * n\<rparr>)"
proof (induction n arbitrary: c s)
  case 0
  show ?case by (simp add: hits_def)
next
  case (Suc n)
  show ?case
    by (simp add: loop_body_eq Suc.IH hits_Suc)
qed

lemma random_rows_eq:
  "random_rows n s =
     (map (\<lambda>i. [draws s (pos s + 2 * i), draws s (pos s + 2 * i + 1)]) [0..<n],
      s\<lparr>pos := pos s + 2 * n\<rparr>)"
proof (induction n arbitrary: s)
  case 0
  show ?case by simp
next
  case (Suc n)
  show ?case
    unfolding upt_shift
    by (simp add: np_random_def Suc.IH o_def del: upt_Suc)
qed

lemma sample_array_eq:
  assumes "0 \<le> nMC"
  shows "sample_array 2 nMC s =
     (Inr (map (\<lambda>i. [fst (point s i), snd (point s i)]) [0..<nat nMC]),
      s\<lparr>pos := pos s + 2 * nat nMC\<rparr>)"
  using assms
  by (simp add: sample_array_def np_random_shape_def random_rows_eq point_def scale_draw_def
      o_def)

lemma mask_select_maps: "mask_select (map f xs) (map g xs) = map f (filter g xs)"
  by (induction xs) (simp_all add: mask_select_def)

lemma naive_eq:
  "estimate_pi_naive P nMC s =
     (if nMC = 0 then Inl ZeroDivisionError
      else Inr (4 * real (hits P (py_pow2 P) s (nat nMC)) / of_int nMC),
      s\<lparr>pos := pos s + 2 * nat nMC\<rparr>)"
  by (simp add: estimate_pi_naive_def for_range_loop)

lemma numba_eq:
  assumes "- (2 ^ 63) \<le> nMC" and "nMC < 2 ^ 63"
  shows "estimate_pi_numba P nMC s =
     (if nMC = 0 then Inl ZeroDivisionError
      else Inr (4 * real (hits P (nb_pow2 P) s (nat nMC)) / of_int nMC),
      s\<lparr>pos := pos s + 2 * nat nMC\<rparr>)"
  using assms by (simp add: estimate_pi_numba_def for_range_loop)

lemma numba_stdout: "stdout (snd (estimate_pi_numba P nMC s)) = stdout s"
  by (simp add: estimate_pi_numba_def for_range_loop)

lemma julia_eq:
  "estimate_pi_julia P nMC s =
     (if nMC = 0 then NaN else Finite (real (hits P (jl_pow2 P) s (nat nMC)) / of_int nMC * 4),
      s\<lparr>pos := pos s + 2 * nat nMC\<rparr>)"
  by (simp add: estimate_pi_julia_def for_range_loop)

lemma vec_eq:
  assumes "0 \<le> nMC"
  shows "estimate_pi_vectorized P nMC s =
     (if nMC = 0 then Inl ZeroDivisionError
      else Inr (4 * real (hits P (np_square P) s (nat nMC)) / of_int nMC),
      s\<lparr>pos := pos s + 2 * nat nMC,
        stdout := stdout s @ [int (hits P (np_square P) s (nat nMC))]\<rparr>)"
  unfolding estimate_pi_vectorized_def Let_def
  by (simp add: sample_array_eq [OF assms] mask_select_maps print_def hits_def filter_map
      o_def row_sum_def computed_r_def)

text \<open>With a negative argument the vectorised version raises before it draws or
  prints anything; the loop versions run no iteration and return \<open>0\<close>.\<close>

lemma vec_neg: "nMC < 0 \<Longrightarrow> estimate_pi_vectorized P nMC s = (Inl ValueError, s)"
  by (simp add: estimate_pi_vectorized_def sample_array_def np_random_shape_def)

lemma hits_le: "hits P pw s n \<le> n"
  unfolding hits_def using length_filter_le [of _ "[0..<n]"] by simp

lemma hits_split: "hits P pw s n = strictly_inside P pw s n + on_boundary P pw s n"
proof -
  have "length (filter (\<lambda>i. computed_r P pw (point s i) \<le> 1) xs) =
        length (filter (\<lambda>i. computed_r P pw (point s i) < 1) xs) +
        length (filter (\<lambda>i. computed_r P pw (point s i) = 1) xs)" for xs
    by (induction xs) auto
  then show ?thesis by (simp add: hits_def strictly_inside_def on_boundary_def)
qed

lemma hits_cong:
  assumes "\<forall>i < n. pw (fst (point s i)) = pw' (fst (point s i))
                 \<and> pw (snd (point s i)) = pw' (snd (point s i))"
  shows "hits P pw s n = hits P pw' s n"
proof -
  have "filter (\<lambda>i. computed_r P pw (point s i) \<le> 1) [0..<n] =
        filter (\<lambda>i. computed_r P pw' (point s i) \<le> 1) [0..<n]"
    using assms by (intro filter_cong) (auto simp: computed_r_def)
  then show ?thesis by (simp add: hits_def)
qed

lemma point_in_square:
  assumes "\<forall>i. 0 \<le> draws s i \<and> draws s i < 1"
  shows "fst (point s i) \<in> {-1..<1} \<and> snd (point s i) \<in> {-1..<1}"
proof -
  have "0 \<le> draws s (pos s + 2 * i) \<and> draws s (pos s + 2 * i) < 1"
       "0 \<le> draws s (pos s + 2 * i + 1) \<and> draws s (pos s + 2 * i + 1) < 1"
    using assms by blast+
  then show ?thesis by (simp add: point_def scale_draw_def)
qed

text \<open>A coordinate falls in \<open>[c, d)\<close> exactly when its draw falls in an interval of
  half that length: draws that are uniform on \<open>[0, 1)\<close> give coordinates that are
  uniform on \<open>[-1, 1)\<close>.\<close>

lemma point_interval:
  "(fst (point s i) \<in> {c..<d} \<longleftrightarrow> draws s (pos s + 2 * i) \<in> {(c + 1) / 2..<(d + 1) / 2})
   \<and> (snd (point s i) \<in> {c..<d} \<longleftrightarrow>
        draws s (pos s + 2 * i + 1) \<in> {(c + 1) / 2..<(d + 1) / 2})"
  by (auto simp: point_def scale_draw_def field_simps)

subsection \<open>The three concrete generators\<close>

lemma demo_points: "point demo_world 0 = (- 1, - 1)" "point demo_world (Suc 0) = (0, 0)"
  by (simp_all add: point_def scale_draw_def demo_world_def)

lemma rim_point: "point rim_world 0 = (- 1, 1 / 2 ^ 52)"
  by (simp add: point_def scale_draw_def rim_world_def)

lemma cx_point: "point cx_world 0 = (x0, y0)"
  by (simp add: point_def scale_draw_def cx_world_def x0_def y0_def)

lemma sample_demo: "fst (sample_array 2 2 demo_world) = Inr [[- 1, - 1], [0, 0]]"
  by (simp add: sample_array_eq demo_points numeral_2_eq_2)

lemma hits_demo:
  "hits binary64 (py_pow2 binary64) demo_world 2 = 1"
  "hits binary64 (np_square binary64) demo_world 2 = 1"
  by (simp_all add: hits_def numeral_2_eq_2 demo_points r_corner r_centre squares_binary64)

lemma rim_r:
  "computed_r binary64 (py_pow2 binary64) (point rim_world 0) = 1"
  "computed_r binary64 (np_square binary64) (point rim_world 0) = 1"
  "computed_r binary64 (nb_pow2 binary64) (point rim_world 0) = 1"
  "computed_r binary64 (jl_pow2 binary64) (point rim_world 0) = 1"
  unfolding rim_point by (rule r_rim, rule squares_binary64, rule squares_binary64)+

lemma rim_counts:
  "strictly_inside binary64 (py_pow2 binary64) rim_world 1 = 0"
  "on_boundary binary64 (py_pow2 binary64) rim_world 1 = 1"
  "strictly_inside binary64 (np_square binary64) rim_world 1 = 0"
  "on_boundary binary64 (np_square binary64) rim_world 1 = 1"
  "strictly_inside binary64 (nb_pow2 binary64) rim_world 1 = 0"
  "on_boundary binary64 (nb_pow2 binary64) rim_world 1 = 1"
  "strictly_inside binary64 (jl_pow2 binary64) rim_world 1 = 0"
  "on_boundary binary64 (jl_pow2 binary64) rim_world 1 = 1"
  by (simp_all add: strictly_inside_def on_boundary_def rim_r)

lemma hits_cx:
  "hits binary64 (py_pow2 binary64) cx_world 1 = 1"
  "hits binary64 (np_square binary64) cx_world 1 = 0"
  by (simp_all add: hits_def cx_point r_cx_py r_cx_np)

section \<open>Properties\<close>

text \<open>
  Claim C1. For a positive trial count \<open>nMC\<close> and a generator whose numbers lie in
  \<open>[0, 1)\<close>, the estimator samples \<open>nMC\<close> points of the square of side 2 centred at the
  origin: the \<open>i\<close>-th run of the first two lines of the loop body, and the \<open>i\<close>-th row
  of the array \<open>xy\<close>, is the point made of draws \<open>2i\<close> and \<open>2i+1\<close>; each coordinate lies
  in \<open>[-1, 1)\<close> and falls in a subinterval \<open>[c, d)\<close> exactly when its draw falls in an
  interval of half that length, so uniform draws give uniform points. It counts
  the points whose distance from the origin, as computed in the variable \<open>r\<close>, is
  at most the radius 1, and returns four times the fraction counted. Both
  versions consume exactly \<open>2 * nMC\<close> draws.
\<close>

theorem estimate_pi_monte_carlo:
  assumes "0 < nMC" and "\<forall>i. 0 \<le> draws s i \<and> draws s i < 1"
  shows "(\<forall>i < nat nMC.
            fst (sample_xy 2 (s\<lparr>pos := pos s + 2 * i\<rparr>)) = point s i
          \<and> fst (point s i) \<in> {-1..<1} \<and> snd (point s i) \<in> {-1..<1}
          \<and> (\<forall>c d. (fst (point s i) \<in> {c..<d} \<longleftrightarrow>
                       draws s (pos s + 2 * i) \<in> {(c + 1) / 2..<(d + 1) / 2})
                  \<and> (snd (point s i) \<in> {c..<d} \<longleftrightarrow>
                       draws s (pos s + 2 * i + 1) \<in> {(c + 1) / 2..<(d + 1) / 2})))
       \<and> fst (sample_array 2 nMC s) =
           Inr (map (\<lambda>i. [fst (point s i), snd (point s i)]) [0..<nat nMC])
       \<and> estimate_pi_naive P nMC s =
           (Inr (4 * (real (hits P (py_pow2 P) s (nat nMC)) / of_int nMC)),
            s\<lparr>pos := pos s + 2 * nat nMC\<rparr>)
       \<and> estimate_pi_vectorized P nMC s =
           (Inr (4 * (real (hits P (np_square P) s (nat nMC)) / of_int nMC)),
            s\<lparr>pos := pos s + 2 * nat nMC,
              stdout := stdout s @ [int (hits P (np_square P) s (nat nMC))]\<rparr>)"
proof -
  have sq: "\<forall>i < nat nMC.
            fst (sample_xy 2 (s\<lparr>pos := pos s + 2 * i\<rparr>)) = point s i
          \<and> fst (point s i) \<in> {-1..<1} \<and> snd (point s i) \<in> {-1..<1}
          \<and> (\<forall>c d. (fst (point s i) \<in> {c..<d} \<longleftrightarrow>
                       draws s (pos s + 2 * i) \<in> {(c + 1) / 2..<(d + 1) / 2})
                  \<and> (snd (point s i) \<in> {c..<d} \<longleftrightarrow>
                       draws s (pos s + 2 * i + 1) \<in> {(c + 1) / 2..<(d + 1) / 2}))"
  proof (intro allI impI conjI)
    fix i
    show "fst (sample_xy 2 (s\<lparr>pos := pos s + 2 * i\<rparr>)) = point s i"
      by (simp add: sample_xy_eq point_def)
    show "fst (point s i) \<in> {-1..<1}" "snd (point s i) \<in> {-1..<1}"
      using point_in_square [OF assms(2), of i] by simp_all
    fix c d
    show "fst (point s i) \<in> {c..<d} \<longleftrightarrow>
            draws s (pos s + 2 * i) \<in> {(c + 1) / 2..<(d + 1) / 2}"
         "snd (point s i) \<in> {c..<d} \<longleftrightarrow>
            draws s (pos s + 2 * i + 1) \<in> {(c + 1) / 2..<(d + 1) / 2}"
      using point_interval [of s i c d] by simp_all
  qed
  have ar: "fst (sample_array 2 nMC s) =
           Inr (map (\<lambda>i. [fst (point s i), snd (point s i)]) [0..<nat nMC])"
    using assms(1) by (simp add: sample_array_eq)
  have nv: "estimate_pi_naive P nMC s =
           (Inr (4 * (real (hits P (py_pow2 P) s (nat nMC)) / of_int nMC)),
            s\<lparr>pos := pos s + 2 * nat nMC\<rparr>)"
    using assms(1) by (simp add: naive_eq)
  have vc: "estimate_pi_vectorized P nMC s =
           (Inr (4 * (real (hits P (np_square P) s (nat nMC)) / of_int nMC)),
            s\<lparr>pos := pos s + 2 * nat nMC,
              stdout := stdout s @ [int (hits P (np_square P) s (nat nMC))]\<rparr>)"
    using assms(1) by (simp add: vec_eq)
  from sq ar nv vc show ?thesis by blast
qed

theorem estimate_pi_monte_carlo_witness:
  "0 < (2::int) \<and> (\<forall>i. 0 \<le> draws demo_world i \<and> draws demo_world i < 1)
   \<and> fst (sample_array 2 2 demo_world) = Inr [[- 1, - 1], [0, 0]]
   \<and> estimate_pi_naive binary64 2 demo_world = (Inr 2, demo_world\<lparr>pos := 4\<rparr>)
   \<and> estimate_pi_vectorized binary64 2 demo_world =
       (Inr 2, demo_world\<lparr>pos := 4, stdout := [1]\<rparr>)"
proof -
  have d: "\<forall>i. 0 \<le> draws demo_world i \<and> draws demo_world i < 1"
    by (simp add: demo_world_def)
  have p: "pos demo_world = 0" "stdout demo_world = []"
    by (simp_all add: demo_world_def)
  show ?thesis
    using estimate_pi_monte_carlo [of 2 demo_world binary64] d
    by (simp add: hits_demo sample_demo p)
qed

text \<open>
  Claim C2. Whatever the trial count and whatever the generator produces, a value
  returned by the estimator lies in \<open>[0, 4]\<close>; and for a positive trial count a value
  is returned.
\<close>

theorem estimate_pi_in_range:
  "(\<forall>v. fst (estimate_pi_naive P nMC s) = Inr v \<longrightarrow> 0 \<le> v \<and> v \<le> 4)
   \<and> (\<forall>v. fst (estimate_pi_vectorized P nMC s) = Inr v \<longrightarrow> 0 \<le> v \<and> v \<le> 4)
   \<and> (0 < nMC \<longrightarrow> (\<exists>v. fst (estimate_pi_naive P nMC s) = Inr v)
                  \<and> (\<exists>v. fst (estimate_pi_vectorized P nMC s) = Inr v))"
proof -
  have bound: "0 \<le> 4 * real (hits P pw s (nat nMC)) / of_int nMC
             \<and> 4 * real (hits P pw s (nat nMC)) / of_int nMC \<le> 4" if "0 < nMC" for pw
  proof -
    have "real (hits P pw s (nat nMC)) \<le> real (nat nMC)"
      using hits_le [of P pw s "nat nMC"] by simp
    also have "\<dots> = of_int nMC" using that by simp
    finally have "real (hits P pw s (nat nMC)) \<le> of_int nMC" .
    with that show ?thesis by (simp add: field_simps)
  qed
  have n: "\<forall>v. fst (estimate_pi_naive P nMC s) = Inr v \<longrightarrow> 0 \<le> v \<and> v \<le> 4"
  proof (cases "0 < nMC")
    case True
    then show ?thesis using bound [of "py_pow2 P"] by (auto simp: naive_eq)
  next
    case False
    then have "hits P (py_pow2 P) s (nat nMC) = 0" by (simp add: hits_def)
    then show ?thesis by (auto simp: naive_eq)
  qed
  have v: "\<forall>v. fst (estimate_pi_vectorized P nMC s) = Inr v \<longrightarrow> 0 \<le> v \<and> v \<le> 4"
  proof (cases "0 < nMC")
    case True
    then show ?thesis using bound [of "np_square P"] by (auto simp: vec_eq)
  next
    case False
    then consider "nMC = 0" | "nMC < 0" by linarith
    then show ?thesis
      by cases (simp_all add: vec_eq vec_neg)
  qed
  have r: "0 < nMC \<longrightarrow> (\<exists>v. fst (estimate_pi_naive P nMC s) = Inr v)
                  \<and> (\<exists>v. fst (estimate_pi_vectorized P nMC s) = Inr v)"
    by (simp add: naive_eq vec_eq)
  from n v r show ?thesis by blast
qed

theorem estimate_pi_in_range_witness:
  "0 < (2::int) \<and> fst (estimate_pi_naive binary64 2 demo_world) = Inr 2
   \<and> fst (estimate_pi_vectorized binary64 2 demo_world) = Inr 2
   \<and> (0::real) \<le> 2 \<and> (2::real) \<le> 4"
  using estimate_pi_in_range [of binary64 2 demo_world]
  by (simp add: naive_eq vec_eq hits_demo)

text \<open>
  Claim C3. With trial count 0 no estimate is returned: the loop runs no
  iteration (the array has no row), no draw is consumed, and the final division
  by \<open>nMC\<close> raises \<open>ZeroDivisionError\<close>. The vectorised version has printed the
  count 0 by then.
\<close>

theorem estimate_pi_zero_trials:
  "estimate_pi_naive P 0 s = (Inl ZeroDivisionError, s)
   \<and> estimate_pi_numba P 0 s = (Inl ZeroDivisionError, s)
   \<and> estimate_pi_vectorized P 0 s = (Inl ZeroDivisionError, s\<lparr>stdout := stdout s @ [0]\<rparr>)"
  by (simp add: estimate_pi_naive_def estimate_pi_numba_def estimate_pi_vectorized_def
      sample_array_def np_random_shape_def mask_select_def print_def)

text \<open>
  Claim C4. On a state \<open>(x, y, z)\<close> and parameters \<open>(sigma, rho, beta)\<close> the Lorenz
  field returns exactly \<open>(sigma (y - x), x (rho - z) - y, x y - beta z)\<close>. It is a
  function of its arguments alone: it takes and returns no generator or output
  state, and its result does not depend on the time argument. The Julia field
  writes the same three numbers into a three-element \<open>du\<close>.
\<close>

theorem lorenz_field:
  "lorenz [x, y, z] t sigma rho beta =
      Inr [sigma * (y - x), x * (rho - z) - y, x * y - beta * z]
   \<and> lorenz [x, y, z] t' sigma rho beta = lorenz [x, y, z] t sigma rho beta
   \<and> (length du = 3 \<longrightarrow> jul_lorenz du [x, y, z] [sigma, rho, beta] t =
      Inr [sigma * (y - x), x * (rho - z) - y, x * y - beta * z])"
proof -
  have "jul_lorenz du [x, y, z] [sigma, rho, beta] t =
      Inr [sigma * (y - x), x * (rho - z) - y, x * y - beta * z]" if "length du = 3"
  proof -
    from that obtain a b c where "du = [a, b, c]"
      by (auto simp: numeral_3_eq_3 length_Suc_conv)
    then show ?thesis by (simp add: jul_lorenz_def)
  qed
  then show ?thesis by simp
qed

theorem lorenz_field_witness:
  "length [7, 8, 9 :: real] = 3
   \<and> lorenz [1, 2, 3] 0 10 28 2 = Inr [10, 23, -4]
   \<and> jul_lorenz [7, 8, 9] [1, 2, 3] [10, 28, 2] 0 = Inr [10, 23, -4]"
  using lorenz_field [of 1 2 3 0 10 28 2 0 "[7, 8, 9]"]
  by simp

text \<open>
  Claim C5. At the state \<open>(0, 0, 0)\<close> the Lorenz field returns the zero vector,
  whatever the parameters: the origin is a fixed point.
\<close>

theorem lorenz_origin_fixed_point:
  "lorenz [0, 0, 0] t sigma rho beta = Inr [0, 0, 0]"
  by simp

text \<open>
  Claim C6, as stated, fails: the field is not additive in the parameters. At the
  state \<open>(0, 1, 0)\<close> the second component is \<open>x (rho - z) - y = -1\<close> for every
  parameter triple, so the field at \<open>p1 + p2\<close> has second component \<open>-1\<close> while the
  sum of the fields at \<open>p1\<close> and \<open>p2\<close> has \<open>-2\<close>.
\<close>

theorem lorenz_not_linear:
  "lorenz [0, 1, 0] 0 (1 + 2) (1 + 2) (1 + 2) \<noteq>
     result_add (lorenz [0, 1, 0] 0 1 1 1) (lorenz [0, 1, 0] 0 2 2 2)"
  by simp

text \<open>
  Claim C6, amended. For a fixed state the field is affine in the parameters: its
  difference from the field at the zero parameters, \<open>(0, - x z - y, x y)\<close>, is
  additive and homogeneous in \<open>(sigma, rho, beta)\<close>.
\<close>

theorem lorenz_affine_in_parameters:
  "result_sub (lorenz [x, y, z] t (s1 + s2) (r1 + r2) (b1 + b2)) (lorenz [x, y, z] t 0 0 0) =
     result_add (result_sub (lorenz [x, y, z] t s1 r1 b1) (lorenz [x, y, z] t 0 0 0))
                (result_sub (lorenz [x, y, z] t s2 r2 b2) (lorenz [x, y, z] t 0 0 0))
   \<and> result_sub (lorenz [x, y, z] t (c * s1) (c * r1) (c * b1)) (lorenz [x, y, z] t 0 0 0) =
     result_scale c (result_sub (lorenz [x, y, z] t s1 r1 b1) (lorenz [x, y, z] t 0 0 0))"
  by (simp add: algebra_simps)

text \<open>
  Claim C7, as stated, fails. \<open>x**2\<close> in the loop and \<open>xy**2\<close> in the array version
  are different operations, and they round the square of \<open>x0\<close> differently. On
  \<open>cx_world\<close> with one trial the loop computes \<open>x**2 + y**2 = 1 + 2\<^sup>-\<^sup>5\<^sup>2\<close>, whose square
  root rounds to 1, counts the point and returns 4; the array version computes
  \<open>1 + 2\<^sup>-\<^sup>5\<^sup>1\<close>, whose square root rounds to \<open>1 + 2\<^sup>-\<^sup>5\<^sup>2\<close>, counts nothing and returns 0.
\<close>

theorem naive_vectorized_differ:
  "fst (estimate_pi_naive binary64 1 cx_world) = Inr 4
   \<and> fst (estimate_pi_vectorized binary64 1 cx_world) = Inr 0
   \<and> fst (estimate_pi_naive binary64 1 cx_world) \<noteq>
       fst (estimate_pi_vectorized binary64 1 cx_world)"
  using hits_cx by (simp add: naive_eq vec_eq)

text \<open>
  Claim C7, amended. For a positive trial count and the same generator, each
  version returns four times the number of points with \<open>sqrt(x\<^sup>2 + y\<^sup>2) \<le> 1\<close>
  divided by \<open>nMC\<close>, computed with its own squaring, and both leave the generator
  at the same position. The two values are identical whenever \<open>x**2\<close> of the loop
  and \<open>xy**2\<close> of the array version agree on every sampled coordinate.
\<close>

theorem naive_vectorized_agree:
  assumes "0 < nMC"
  shows "fst (estimate_pi_naive P nMC s) = Inr (estimate_pi_spec P (py_pow2 P) nMC s)
       \<and> fst (estimate_pi_vectorized P nMC s) = Inr (estimate_pi_spec P (np_square P) nMC s)
       \<and> pos (snd (estimate_pi_naive P nMC s)) = pos (snd (estimate_pi_vectorized P nMC s))
       \<and> ((\<forall>i < nat nMC. py_pow2 P (fst (point s i)) = np_square P (fst (point s i))
                        \<and> py_pow2 P (snd (point s i)) = np_square P (snd (point s i)))
            \<longrightarrow> fst (estimate_pi_naive P nMC s) = fst (estimate_pi_vectorized P nMC s))"
  using assms hits_cong [of "nat nMC" "py_pow2 P" s "np_square P" P]
  by (simp add: naive_eq vec_eq estimate_pi_spec_def)

theorem naive_vectorized_agree_witness:
  "0 < (2::int)
   \<and> py_pow2 binary64 (fst (point demo_world 0)) = np_square binary64 (fst (point demo_world 0))
   \<and> py_pow2 binary64 (snd (point demo_world 0)) = np_square binary64 (snd (point demo_world 0))
   \<and> py_pow2 binary64 (fst (point demo_world 1)) = np_square binary64 (fst (point demo_world 1))
   \<and> py_pow2 binary64 (snd (point demo_world 1)) = np_square binary64 (snd (point demo_world 1))
   \<and> fst (estimate_pi_naive binary64 2 demo_world) = Inr 2
   \<and> fst (estimate_pi_vectorized binary64 2 demo_world) = Inr 2"
proof -
  have a: "\<forall>i < nat 2. py_pow2 binary64 (fst (point demo_world i)) =
                     np_square binary64 (fst (point demo_world i))
                 \<and> py_pow2 binary64 (snd (point demo_world i)) =
                     np_square binary64 (snd (point demo_world i))"
    by (simp add: numeral_2_eq_2 less_Suc_eq demo_points squares_binary64)
  show ?thesis
    using naive_vectorized_agree [of 2 binary64 demo_world] a
    by (simp add: estimate_pi_spec_def hits_demo demo_points squares_binary64)
qed

text \<open>
  Claim C9. The loop versions write nothing to standard output. The vectorised
  version, called with any trial count (a non-negative integer), appends exactly
  one line, the hit count \<open>n_circle\<close>, which is the count its return value is
  computed from; this happens before the final division, so also when the
  division fails.
\<close>

theorem vectorized_prints_count:
  "stdout (snd (estimate_pi_naive P nMC s)) = stdout s
   \<and> stdout (snd (estimate_pi_numba P nMC s)) = stdout s
   \<and> stdout (snd (estimate_pi_julia P nMC s)) = stdout s
   \<and> (0 \<le> nMC \<longrightarrow>
        stdout (snd (estimate_pi_vectorized P nMC s)) =
          stdout s @ [int (hits P (np_square P) s (nat nMC))])
   \<and> (0 < nMC \<longrightarrow>
        fst (estimate_pi_vectorized P nMC s) =
          Inr (4 * of_int (int (hits P (np_square P) s (nat nMC))) / of_int nMC))"
  by (simp add: naive_eq numba_stdout julia_eq vec_eq)

theorem vectorized_prints_count_witness:
  "0 < (2::int) \<and> stdout (snd (estimate_pi_vectorized binary64 2 demo_world)) = [1]
   \<and> fst (estimate_pi_vectorized binary64 2 demo_world) = Inr 2
   \<and> stdout (snd (estimate_pi_naive binary64 2 demo_world)) = []
   \<and> 0 \<le> (0::int) \<and> stdout (snd (estimate_pi_vectorized binary64 0 demo_world)) = [0]"
proof -
  have p: "stdout demo_world = []"
    by (simp add: demo_world_def)
  have z: "hits binary64 (np_square binary64) demo_world 0 = 0"
    by (simp add: hits_def)
  show ?thesis
    using vectorized_prints_count [of binary64 2 demo_world]
      vectorized_prints_count [of binary64 0 demo_world]
    by (simp add: hits_demo p z)
qed

text \<open>
  Claim C10. In every variant the test is \<open>r \<le> radius\<close>: a point whose computed
  distance \<open>r\<close> equals the radius is counted. The count each variant uses is the
  number of points with \<open>r < 1\<close> plus the number of points with \<open>r = 1\<close>, and one
  iteration of the loop on a point with \<open>r = 1\<close> increments the counter.
\<close>

theorem boundary_point_is_counted:
  assumes "0 < nMC"
  shows "fst (estimate_pi_naive P nMC s) =
           Inr (4 * real (strictly_inside P (py_pow2 P) s (nat nMC)
                          + on_boundary P (py_pow2 P) s (nat nMC)) / of_int nMC)
       \<and> fst (estimate_pi_vectorized P nMC s) =
           Inr (4 * real (strictly_inside P (np_square P) s (nat nMC)
                          + on_boundary P (np_square P) s (nat nMC)) / of_int nMC)
       \<and> (nMC < 2 ^ 63 \<longrightarrow> fst (estimate_pi_numba P nMC s) =
           Inr (4 * real (strictly_inside P (nb_pow2 P) s (nat nMC)
                          + on_boundary P (nb_pow2 P) s (nat nMC)) / of_int nMC))
       \<and> fst (estimate_pi_julia P nMC s) =
           Finite (real (strictly_inside P (jl_pow2 P) s (nat nMC)
                         + on_boundary P (jl_pow2 P) s (nat nMC)) / of_int nMC * 4)
       \<and> (computed_r P pw (point s 0) = 1 \<longrightarrow>
            loop_body pw P 1 2 (c, s) = (c + 1, s\<lparr>pos := pos s + 2\<rparr>))"
  using assms by (simp add: naive_eq vec_eq numba_eq julia_eq hits_split loop_body_eq)

theorem boundary_point_is_counted_witness:
  "0 < (1::int) \<and> (1::int) < 2 ^ 63
   \<and> computed_r binary64 (py_pow2 binary64) (point rim_world 0) = 1
   \<and> 1 < sqrt ((fst (point rim_world 0))\<^sup>2 + (snd (point rim_world 0))\<^sup>2)
   \<and> fst (estimate_pi_naive binary64 1 rim_world) = Inr 4
   \<and> fst (estimate_pi_vectorized binary64 1 rim_world) = Inr 4
   \<and> fst (estimate_pi_numba binary64 1 rim_world) = Inr 4
   \<and> fst (estimate_pi_julia binary64 1 rim_world) = Finite 4
   \<and> loop_body (py_pow2 binary64) binary64 1 2 (0, rim_world) = (1, rim_world\<lparr>pos := 2\<rparr>)"
proof -
  have e: "1 < sqrt ((fst (point rim_world 0))\<^sup>2 + (snd (point rim_world 0))\<^sup>2)"
    unfolding rim_point by simp
  have p: "pos rim_world = 0"
    by (simp add: rim_world_def)
  show ?thesis
    using boundary_point_is_counted [of 1 binary64 rim_world "py_pow2 binary64" 0] e rim_counts
    by (simp add: rim_r p)
qed

end
